theory Spec2Isabelle
  imports Main "HOL-Library.Word"
begin

section \<open>The C binding of libhdfspp (\<^verbatim>\<open>lib/bindings/c/hdfs.cc\<close>)\<close>

text \<open>
  The file wraps an object-oriented filesystem engine in C functions. The engine itself
  (\<^verbatim>\<open>Status\<close>, \<^verbatim>\<open>IoService\<close>, \<^verbatim>\<open>FileSystem\<close>, \<^verbatim>\<open>FileHandle\<close>,
  \<^verbatim>\<open>ConfigurationLoader\<close>, \<^verbatim>\<open>HdfsConfiguration\<close>) is not part of the file. Every call into
  it is a field of the record \<open>engine\<close> below: a function from the call's arguments to its
  outcome, which is either a returned value or a thrown C++ value. Theorems quantify over all
  engines. The call is also appended to a trace kept in the state, so that "the engine is not
  called" and "the object is deleted" are statements about the trace.
\<close>

subsection \<open>Error numbers\<close>

text \<open>The \<^verbatim>\<open>errno.h\<close> constants the file uses, with their Linux values.\<close>

definition EINTR :: int where "EINTR = 4"
definition EBADF :: int where "EBADF = 9"
definition EAGAIN :: int where "EAGAIN = 11"
definition EACCES :: int where "EACCES = 13"
definition ENODEV :: int where "ENODEV = 19"
definition EINVAL :: int where "EINVAL = 22"
definition ENOSYS :: int where "ENOSYS = 38"

subsection \<open>Engine values\<close>

text \<open>
  \<^verbatim>\<open>Status::Code\<close>: the enumerators named by the \<^verbatim>\<open>switch\<close> of \<^verbatim>\<open>Error\<close>, which C++
  requires to be pairwise distinct, and \<open>kOther n\<close> for any code that is none of them.
\<close>

datatype Code =
    kOk
  | kInvalidArgument
  | kResourceUnavailable
  | kUnimplemented
  | kException
  | kOperationCanceled
  | kPermissionDenied
  | kOther nat

text \<open>
  A \<^verbatim>\<open>Status\<close> as this file reads it: \<^verbatim>\<open>stat.code()\<close> and \<^verbatim>\<open>stat.ToString()\<close>.
  \<^verbatim>\<open>stat.ok()\<close> is taken to say that the code is \<^verbatim>\<open>kOk\<close>.
\<close>

record Status =
  code :: Code
  ToString :: string

definition ok :: "Status \<Rightarrow> bool" where
  "ok stat = (code stat = kOk)"

text \<open>What a \<^verbatim>\<open>throw\<close> carries: a \<^verbatim>\<open>std::exception\<close> with its \<^verbatim>\<open>what()\<close>, or any other value.\<close>

datatype thrown = StdException string | OtherValue

datatype 'a outcome = Returns 'a | Throws thrown

text \<open>Engine objects are identified by their address; engine values by an opaque token.\<close>

type_synonym IoService = nat
type_synonym FileSystem = nat
type_synonym FileHandle = nat

datatype Options = Options nat
datatype HdfsConfiguration = HdfsConfiguration nat
datatype ConfigurationLoader = ConfigurationLoader nat

type_synonym int32_t = "32 word"
type_synonym int64_t = "64 word"
type_synonym size_t = "64 word"
type_synonym tPort = "16 word"
type_synonym tSize = "32 word"
type_synonym tOffset = "64 word"

datatype seekdir = beg | cur

subsection \<open>Handles\<close>

text \<open>
  \<^verbatim>\<open>hdfsFS\<close> and \<^verbatim>\<open>hdfsFile\<close> are pointers to the two wrapper structs; \<open>None\<close> is the
  null pointer, \<open>Some h\<close> a pointer to a wrapper holding \<open>h\<close>. The members
  \<^verbatim>\<open>filesystem_\<close> and \<^verbatim>\<open>file_\<close> are written \<open>filesystem_m\<close> and \<open>file_m\<close>.
\<close>

record hdfs_internal =
  filesystem_m :: FileSystem

record hdfsFile_internal =
  file_m :: FileHandle

type_synonym hdfsFS = "hdfs_internal option"
type_synonym hdfsFile = "hdfsFile_internal option"

subsection \<open>Event callback types\<close>

text \<open>
  The C handlers of \<^verbatim>\<open>hdfs_ext.h\<close>: functions of the event, the cluster, (the file,) the value
  and the cookie to an \<^verbatim>\<open>int\<close>. The closures \<^verbatim>\<open>std::bind\<close> builds hold the handler and the
  cookie.
\<close>

type_synonym libhdfspp_fs_event_callback = "string \<Rightarrow> string \<Rightarrow> int64_t \<Rightarrow> int64_t \<Rightarrow> int"
type_synonym libhdfspp_file_event_callback =
  "string \<Rightarrow> string \<Rightarrow> string \<Rightarrow> int64_t \<Rightarrow> int64_t \<Rightarrow> int"

datatype fs_event_callback = fs_bind libhdfspp_fs_event_callback int64_t
datatype file_event_callback = file_bind libhdfspp_file_event_callback int64_t

datatype event_response = response_ok | test_err Status

text \<open>A call of a C handler, as the handler sees it.\<close>

datatype handler_call =
    FsEvent string string int64_t int64_t
  | FileEvent string string string int64_t int64_t

subsection \<open>The engine\<close>

datatype engine_call =
    Call_IoService_New
  | Call_FileSystem_New "IoService option" string Options
  | Call_SetFsEventCallback FileSystem fs_event_callback
  | Call_Connect FileSystem string string
  | Call_ConnectToDefaultFs FileSystem
  | Call_delete_IoService IoService
  | Call_delete_FileSystem FileSystem
  | Call_delete_FileHandle FileHandle
  | Call_PositionRead FileHandle nat size_t tOffset
  | Call_Read FileHandle nat size_t
  | Call_Seek FileHandle int64_t seekdir
  | Call_CancelOperations FileHandle
  | Call_OverlayValue ConfigurationLoader HdfsConfiguration string string
  | Call_GetInt HdfsConfiguration string

text \<open>
  \<open>FileSystem_New\<close> takes the \<^verbatim>\<open>io_service\<close> pointer by reference: it returns the new
  filesystem (or null) and the value the caller's pointer has afterwards (null if the
  constructor took ownership). \<open>PositionRead\<close> and \<open>Read\<close> return the status and the updated
  length, \<open>Seek\<close> the status and the updated offset. \<open>Status_Exception_ToString\<close> and
  \<open>Status_Error\<close> are the engine's \<^verbatim>\<open>Status::Exception(...).ToString()\<close> and
  \<^verbatim>\<open>Status::Error(...)\<close>.
\<close>

record engine =
  IoService_New :: "IoService option outcome"
  FileSystem_New ::
    "IoService option \<Rightarrow> string \<Rightarrow> Options \<Rightarrow> (FileSystem option \<times> IoService option) outcome"
  SetFsEventCallback :: "FileSystem \<Rightarrow> fs_event_callback \<Rightarrow> unit outcome"
  Connect :: "FileSystem \<Rightarrow> string \<Rightarrow> string \<Rightarrow> Status outcome"
  ConnectToDefaultFs :: "FileSystem \<Rightarrow> Status outcome"
  PositionRead :: "FileHandle \<Rightarrow> nat \<Rightarrow> size_t \<Rightarrow> tOffset \<Rightarrow> (Status \<times> size_t) outcome"
  Read :: "FileHandle \<Rightarrow> nat \<Rightarrow> size_t \<Rightarrow> (Status \<times> size_t) outcome"
  Seek :: "FileHandle \<Rightarrow> int64_t \<Rightarrow> seekdir \<Rightarrow> (Status \<times> int64_t) outcome"
  CancelOperations :: "FileHandle \<Rightarrow> unit outcome"
  OverlayValue ::
    "ConfigurationLoader \<Rightarrow> HdfsConfiguration \<Rightarrow> string \<Rightarrow> string
      \<Rightarrow> HdfsConfiguration option outcome"
  GetInt :: "HdfsConfiguration \<Rightarrow> string \<Rightarrow> int64_t option outcome"
  Status_Exception_ToString :: "string \<Rightarrow> string \<Rightarrow> string"
  Status_Error :: "string \<Rightarrow> Status"

text \<open>\<^verbatim>\<open>Status::Exception\<close> is taken to build a status whose code is \<^verbatim>\<open>kException\<close>.\<close>

definition Status_Exception :: "engine \<Rightarrow> string \<Rightarrow> string \<Rightarrow> Status" where
  "Status_Exception eng exception_class_name error_message =
     \<lparr>code = kException,
      ToString = Status_Exception_ToString eng exception_class_name error_message\<rparr>"

subsection \<open>The state\<close>

text \<open>
  The thread-local variables of the file (\<^verbatim>\<open>errno\<close>, \<^verbatim>\<open>errstr\<close>, \<^verbatim>\<open>fsEventCallback\<close>,
  \<^verbatim>\<open>fileEventCallback\<close>) of the calling thread, the trace of the calls made into the
  engine and the trace of the calls made to C event handlers. The line \<^verbatim>\<open>ReportError\<close>
  prints to \<^verbatim>\<open>std::cerr\<close> under \<^verbatim>\<open>LIBHDFSPP_C_API_ENABLE_DEBUG\<close> is not part of the state.
\<close>

record world =
  errno :: int
  errstr :: string
  fsEventCallback :: "fs_event_callback option"
  fileEventCallback :: "file_event_callback option"
  engine_calls :: "engine_call list"
  handler_calls :: "handler_call list"

definition called :: "engine_call \<Rightarrow> world \<Rightarrow> world" where
  "called c w = w\<lparr>engine_calls := engine_calls w @ [c]\<rparr>"

subsection \<open>Error reporting\<close>

definition ReportError :: "int \<Rightarrow> string \<Rightarrow> world \<Rightarrow> world" where
  "ReportError errnum msg w = w\<lparr>errno := errnum, errstr := msg\<rparr>"

text \<open>
  \<^verbatim>\<open>Error\<close>: the \<^verbatim>\<open>switch\<close> returns 0 for \<^verbatim>\<open>kOk\<close> before anything is reported, and
  chooses \<^verbatim>\<open>errnum\<close> and \<^verbatim>\<open>default_message\<close> in its other cases; the message reported
  is \<^verbatim>\<open>stat.ToString()\<close> unless that is empty.
\<close>

definition Error :: "Status \<Rightarrow> world \<Rightarrow> int \<times> world" where
  "Error stat w =
     (case (case code stat of
              kOk \<Rightarrow> None
            | kInvalidArgument \<Rightarrow> Some (EINVAL, ''Invalid argument'')
            | kResourceUnavailable \<Rightarrow> Some (EAGAIN, ''Resource temporarily unavailable'')
            | kUnimplemented \<Rightarrow> Some (ENOSYS, ''Function not implemented'')
            | kException \<Rightarrow> Some (EINTR, ''Exception raised'')
            | kOperationCanceled \<Rightarrow> Some (EINTR, ''Operation canceled'')
            | kPermissionDenied \<Rightarrow> Some (EACCES, ''Permission denied'')
            | kOther n \<Rightarrow> Some (ENOSYS, ''Error: unrecognised code'')) of
        None \<Rightarrow> (0, w)
      | Some (errnum, default_message) \<Rightarrow>
          if ToString stat = [] then (- 1, ReportError errnum default_message w)
          else (- 1, ReportError errnum (ToString stat) w))"

definition ReportException :: "engine \<Rightarrow> string \<Rightarrow> world \<Rightarrow> int \<times> world" where
  "ReportException eng what w = Error (Status_Exception eng ''Uncaught exception'' what) w"

definition ReportCaughtNonException :: "engine \<Rightarrow> world \<Rightarrow> int \<times> world" where
  "ReportCaughtNonException eng w =
     Error (Status_Exception eng ''Uncaught value not derived from std::exception'' '''') w"

text \<open>The two \<^verbatim>\<open>catch\<close> clauses that close every C entry point.\<close>

definition catch :: "engine \<Rightarrow> thrown \<Rightarrow> world \<Rightarrow> int \<times> world" where
  "catch eng e w =
     (case e of
        StdException what \<Rightarrow> ReportException eng what w
      | OtherValue \<Rightarrow> ReportCaughtNonException eng w)"

definition CheckSystemAndHandle :: "hdfsFS \<Rightarrow> hdfsFile \<Rightarrow> world \<Rightarrow> bool \<times> world" where
  "CheckSystemAndHandle fs file w =
     (if fs = None then
        (False, ReportError ENODEV ''Cannot perform FS operations with null FS handle.'' w)
      else if file = None then
        (False, ReportError EBADF ''Cannot perform FS operations with null File handle.'' w)
      else (True, w))"

subsection \<open>File operations\<close>

definition hdfsFileIsOpenForRead :: "hdfsFile \<Rightarrow> world \<Rightarrow> int \<times> world" where
  "hdfsFileIsOpenForRead file w = (if file \<noteq> None then (1, w) else (0, w))"

text \<open>
  \<^verbatim>\<open>file->get_impl()\<close> and \<^verbatim>\<open>delete file\<close> read the wrapper a handle points to. In the
  functions below they stand behind \<^verbatim>\<open>CheckSystemAndHandle\<close>, which has returned true, so
  the handle is not null there (lemma \<open>CheckSystemAndHandle_True\<close>). \<^verbatim>\<open>delete file\<close> destroys
  the wrapper and, through its \<^verbatim>\<open>unique_ptr\<close>, the engine's file object.
\<close>

definition get_impl :: "hdfsFile \<Rightarrow> FileHandle" where
  "get_impl file = file_m (the file)"

definition hdfsCloseFile :: "engine \<Rightarrow> hdfsFS \<Rightarrow> hdfsFile \<Rightarrow> world \<Rightarrow> int \<times> world" where
  "hdfsCloseFile eng fs file w =
     (case CheckSystemAndHandle fs file w of
        (False, w1) \<Rightarrow> (- 1, w1)
      | (True, w1) \<Rightarrow> (0, called (Call_delete_FileHandle (get_impl file)) w1))"

text \<open>
  \<^verbatim>\<open>size_t len = length\<close> converts the signed 32-bit \<^verbatim>\<open>tSize\<close> to 64 bits (\<open>scast\<close>);
  \<^verbatim>\<open>(tSize)len\<close> keeps the low 32 bits (\<open>ucast\<close>); the \<^verbatim>\<open>int\<close> that \<^verbatim>\<open>Error\<close> returns
  is converted to the function's return type. \<open>buffer\<close> is the address the caller passes; only
  the engine writes to it.
\<close>

definition hdfsPread ::
  "engine \<Rightarrow> hdfsFS \<Rightarrow> hdfsFile \<Rightarrow> tOffset \<Rightarrow> nat \<Rightarrow> tSize \<Rightarrow> world \<Rightarrow> tSize \<times> world" where
  "hdfsPread eng fs file position buffer length' w =
     (case CheckSystemAndHandle fs file w of
        (False, w1) \<Rightarrow> (- 1, w1)
      | (True, w1) \<Rightarrow>
          (let len = (scast length' :: size_t);
               w2 = called (Call_PositionRead (get_impl file) buffer len position) w1
           in case PositionRead eng (get_impl file) buffer len position of
                Throws e \<Rightarrow> (case catch eng e w2 of (r, w3) \<Rightarrow> (word_of_int r, w3))
              | Returns (stat, len') \<Rightarrow>
                  if \<not> ok stat then (case Error stat w2 of (r, w3) \<Rightarrow> (word_of_int r, w3))
                  else (ucast len', w2)))"

definition hdfsRead ::
  "engine \<Rightarrow> hdfsFS \<Rightarrow> hdfsFile \<Rightarrow> nat \<Rightarrow> tSize \<Rightarrow> world \<Rightarrow> tSize \<times> world" where
  "hdfsRead eng fs file buffer length' w =
     (case CheckSystemAndHandle fs file w of
        (False, w1) \<Rightarrow> (- 1, w1)
      | (True, w1) \<Rightarrow>
          (let len = (scast length' :: size_t);
               w2 = called (Call_Read (get_impl file) buffer len) w1
           in case Read eng (get_impl file) buffer len of
                Throws e \<Rightarrow> (case catch eng e w2 of (r, w3) \<Rightarrow> (word_of_int r, w3))
              | Returns (stat, len') \<Rightarrow>
                  if \<not> ok stat then (case Error stat w2 of (r, w3) \<Rightarrow> (word_of_int r, w3))
                  else (ucast len', w2)))"

definition hdfsSeek :: "engine \<Rightarrow> hdfsFS \<Rightarrow> hdfsFile \<Rightarrow> tOffset \<Rightarrow> world \<Rightarrow> int \<times> world" where
  "hdfsSeek eng fs file desiredPos w =
     (case CheckSystemAndHandle fs file w of
        (False, w1) \<Rightarrow> (- 1, w1)
      | (True, w1) \<Rightarrow>
          (let desired = desiredPos;
               w2 = called (Call_Seek (get_impl file) desired beg) w1
           in case Seek eng (get_impl file) desired beg of
                Throws e \<Rightarrow> catch eng e w2
              | Returns (stat, desired') \<Rightarrow>
                  if \<not> ok stat then Error stat w2 else (0, w2)))"

definition hdfsTell :: "engine \<Rightarrow> hdfsFS \<Rightarrow> hdfsFile \<Rightarrow> world \<Rightarrow> tOffset \<times> world" where
  "hdfsTell eng fs file w =
     (case CheckSystemAndHandle fs file w of
        (False, w1) \<Rightarrow> (- 1, w1)
      | (True, w1) \<Rightarrow>
          (let offset = (0 :: int64_t);
               w2 = called (Call_Seek (get_impl file) offset cur) w1
           in case Seek eng (get_impl file) offset cur of
                Throws e \<Rightarrow> (case catch eng e w2 of (r, w3) \<Rightarrow> (word_of_int r, w3))
              | Returns (stat, offset') \<Rightarrow>
                  if \<not> ok stat then (case Error stat w2 of (r, w3) \<Rightarrow> (word_of_int r, w3))
                  else (offset', w2)))"

definition hdfsCancel :: "engine \<Rightarrow> hdfsFS \<Rightarrow> hdfsFile \<Rightarrow> world \<Rightarrow> int \<times> world" where
  "hdfsCancel eng fs file w =
     (case CheckSystemAndHandle fs file w of
        (False, w1) \<Rightarrow> (- 1, w1)
      | (True, w1) \<Rightarrow>
          (let w2 = called (Call_CancelOperations (get_impl file)) w1
           in case CancelOperations eng (get_impl file) of
                Throws e \<Rightarrow> catch eng e w2
              | Returns u \<Rightarrow> (0, w2)))"

subsection \<open>Connecting\<close>

definition kDefaultPort :: tPort where
  "kDefaultPort = 8020"

definition value_or :: "'a option \<Rightarrow> 'a \<Rightarrow> 'a" where
  "value_or x d = (case x of None \<Rightarrow> d | Some v \<Rightarrow> v)"

text \<open>\<^verbatim>\<open>std::to_string\<close> of an unsigned value: its decimal digits.\<close>

fun to_string :: "nat \<Rightarrow> string" where
  "to_string n =
     (if n < 10 then [''0123456789'' ! n]
      else to_string (n div 10) @ [''0123456789'' ! (n mod 10)])"

declare to_string.simps [simp del]

text \<open>Lines 206 to 208: a pending filesystem callback is attached to the new filesystem.\<close>

definition attach_callback :: "engine \<Rightarrow> FileSystem \<Rightarrow> world \<Rightarrow> unit outcome \<times> world" where
  "attach_callback eng fs w =
     (case fsEventCallback w of
        None \<Rightarrow> (Returns (), w)
      | Some cb \<Rightarrow> (SetFsEventCallback eng fs cb, called (Call_SetFsEventCallback fs cb) w))"

text \<open>Lines 210 to 219: the address to connect to.\<close>

definition connect_call ::
  "engine \<Rightarrow> FileSystem \<Rightarrow> string option \<Rightarrow> tPort option \<Rightarrow> world \<Rightarrow> Status outcome \<times> world"
  where
  "connect_call eng fs nn port w =
     (if nn \<noteq> None \<or> port \<noteq> None then
        (let port' = (case port of None \<Rightarrow> kDefaultPort | Some p \<Rightarrow> p);
             port_as_string = to_string (unat port')
         in (Connect eng fs (value_or nn []) port_as_string,
             called (Call_Connect fs (value_or nn []) port_as_string) w))
      else (ConnectToDefaultFs eng fs, called (Call_ConnectToDefaultFs fs) w))"

text \<open>Lines 221 to 232: the connection failed.\<close>

definition connect_failed ::
  "Status \<Rightarrow> IoService option \<Rightarrow> FileSystem \<Rightarrow> world \<Rightarrow> hdfsFS \<times> world" where
  "connect_failed status io_service fs w =
     (let w1 = snd (Error status w);
          w2 = (case io_service of
                  None \<Rightarrow> w1
                | Some io \<Rightarrow> called (Call_delete_IoService io) w1);
          w3 = called (Call_delete_FileSystem fs) w2
      in (None, w3))"

text \<open>The \<^verbatim>\<open>catch\<close> clauses of the functions that return a pointer.\<close>

definition catch_nullptr :: "engine \<Rightarrow> thrown \<Rightarrow> world \<Rightarrow> 'a option \<times> world" where
  "catch_nullptr eng e w = (None, snd (catch eng e w))"

definition doHdfsConnect ::
  "engine \<Rightarrow> string option \<Rightarrow> tPort option \<Rightarrow> string option \<Rightarrow> Options \<Rightarrow> world
    \<Rightarrow> hdfsFS \<times> world" where
  "doHdfsConnect eng nn port user options w =
     (let w1 = called Call_IoService_New w
      in case IoService_New eng of
           Throws e \<Rightarrow> catch_nullptr eng e w1
         | Returns io_service0 \<Rightarrow>
             (let w2 = called (Call_FileSystem_New io_service0 (value_or user []) options) w1
              in case FileSystem_New eng io_service0 (value_or user []) options of
                   Throws e \<Rightarrow> catch_nullptr eng e w2
                 | Returns (None, io_service) \<Rightarrow>
                     (None, ReportError ENODEV ''Could not create FileSystem object'' w2)
                 | Returns (Some fs, io_service) \<Rightarrow>
                     (case attach_callback eng fs w2 of
                        (Throws e, w3) \<Rightarrow> catch_nullptr eng e w3
                      | (Returns u, w3) \<Rightarrow>
                          (case connect_call eng fs nn port w3 of
                             (Throws e, w4) \<Rightarrow> catch_nullptr eng e w4
                           | (Returns status, w4) \<Rightarrow>
                               if \<not> ok status then connect_failed status io_service fs w4
                               else (Some \<lparr>filesystem_m = fs\<rparr>, w4)))))"

subsection \<open>The builder\<close>

record hdfsBuilder =
  loader :: ConfigurationLoader
  config :: HdfsConfiguration
  overrideHost :: "string option"
  overridePort :: "tPort option"
  user :: "string option"

text \<open>
  The functions below take the builder \<^verbatim>\<open>bld\<close> points to and return it as the call leaves
  it; \<^verbatim>\<open>hdfsBuilderConfGetInt\<close> likewise takes and returns the \<^verbatim>\<open>int32_t\<close> that \<^verbatim>\<open>val\<close>
  points to.
\<close>

definition hdfsBuilderConfSetStr ::
  "engine \<Rightarrow> hdfsBuilder \<Rightarrow> string \<Rightarrow> string \<Rightarrow> world \<Rightarrow> int \<times> hdfsBuilder \<times> world" where
  "hdfsBuilderConfSetStr eng bld key val w =
     (let w1 = called (Call_OverlayValue (loader bld) (config bld) key val) w
      in case OverlayValue eng (loader bld) (config bld) key val of
           Throws e \<Rightarrow> (case catch eng e w1 of (r, w2) \<Rightarrow> (r, bld, w2))
         | Returns (Some newConfig) \<Rightarrow> (0, bld\<lparr>config := newConfig\<rparr>, w1)
         | Returns None \<Rightarrow>
             (1, bld, ReportError EINVAL ''Could not change Builder value'' w1))"

text \<open>\<^verbatim>\<open>std::numeric_limits<int>\<close> is that of a 32-bit \<^verbatim>\<open>int\<close>.\<close>

definition isValidInt :: "int64_t \<Rightarrow> bool" where
  "isValidInt v = (sint v \<ge> - (2 ^ 31) \<and> sint v \<le> 2 ^ 31 - 1)"

definition hdfsBuilderConfGetInt ::
  "engine \<Rightarrow> hdfsBuilder \<Rightarrow> string \<Rightarrow> int32_t \<Rightarrow> world \<Rightarrow> int \<times> int32_t \<times> world" where
  "hdfsBuilderConfGetInt eng bld key val w =
     (let w1 = called (Call_GetInt (config bld) key) w
      in case GetInt eng (config bld) key of
           Throws e \<Rightarrow> (case catch eng e w1 of (r, w2) \<Rightarrow> (r, val, w2))
         | Returns (Some v) \<Rightarrow>
             if \<not> isValidInt v then (1, val, w1)
             else (0, ucast v, ReportError EINVAL ''Could not get Builder value'' w1)
         | Returns None \<Rightarrow> (0, val, ReportError EINVAL ''Could not get Builder value'' w1))"

subsection \<open>Event callbacks\<close>

text \<open>
  What the file takes from the build and from \<^verbatim>\<open>hdfs_ext.h\<close>: whether \<^verbatim>\<open>NDEBUG\<close> is defined,
  and the two handler return codes it compares with.
\<close>

record build =
  NDEBUG :: bool
  LIBHDFSPP_EVENT_OK :: int
  DEBUG_SIMULATE_ERROR :: int

definition fs_callback_glue ::
  "build \<Rightarrow> engine \<Rightarrow> libhdfspp_fs_event_callback \<Rightarrow> int64_t \<Rightarrow> string \<Rightarrow> string \<Rightarrow> int64_t
    \<Rightarrow> world \<Rightarrow> event_response \<times> world" where
  "fs_callback_glue b eng handler cookie event cluster val w =
     (let result = handler event cluster val cookie;
          w1 = w\<lparr>handler_calls := handler_calls w @ [FsEvent event cluster val cookie]\<rparr>
      in if result = LIBHDFSPP_EVENT_OK b then (response_ok, w1)
         else if \<not> NDEBUG b \<and> result = DEBUG_SIMULATE_ERROR b then
           (test_err (Status_Error eng ''Simulated error''), w1)
         else (response_ok, w1))"

definition file_callback_glue ::
  "build \<Rightarrow> engine \<Rightarrow> libhdfspp_file_event_callback \<Rightarrow> int64_t \<Rightarrow> string \<Rightarrow> string \<Rightarrow> string
    \<Rightarrow> int64_t \<Rightarrow> world \<Rightarrow> event_response \<times> world" where
  "file_callback_glue b eng handler cookie event cluster file val w =
     (let result = handler event cluster file val cookie;
          w1 = w\<lparr>handler_calls := handler_calls w @ [FileEvent event cluster file val cookie]\<rparr>
      in if result = LIBHDFSPP_EVENT_OK b then (response_ok, w1)
         else if \<not> NDEBUG b \<and> result = DEBUG_SIMULATE_ERROR b then
           (test_err (Status_Error eng ''Simulated error''), w1)
         else (response_ok, w1))"

text \<open>
  The engine invoking a stored closure: \<^verbatim>\<open>std::bind(fs_callback_glue, handler, cookie, _1, _2,
  _3)\<close> applied to the event, the cluster and the value (and the file, for a file closure).
\<close>

fun invoke_fs :: "build \<Rightarrow> engine \<Rightarrow> fs_event_callback \<Rightarrow> string \<Rightarrow> string \<Rightarrow> int64_t
    \<Rightarrow> world \<Rightarrow> event_response \<times> world" where
  "invoke_fs b eng (fs_bind handler cookie) event cluster val w =
     fs_callback_glue b eng handler cookie event cluster val w"

fun invoke_file :: "build \<Rightarrow> engine \<Rightarrow> file_event_callback \<Rightarrow> string \<Rightarrow> string \<Rightarrow> string
    \<Rightarrow> int64_t \<Rightarrow> world \<Rightarrow> event_response \<times> world" where
  "invoke_file b eng (file_bind handler cookie) event cluster file val w =
     file_callback_glue b eng handler cookie event cluster file val w"

definition hdfsPreAttachFSMonitor ::
  "libhdfspp_fs_event_callback \<Rightarrow> int64_t \<Rightarrow> world \<Rightarrow> int \<times> world" where
  "hdfsPreAttachFSMonitor handler cookie w =
     (let callback = fs_bind handler cookie
      in (0, w\<lparr>fsEventCallback := Some callback\<rparr>))"

definition hdfsPreAttachFileMonitor ::
  "libhdfspp_file_event_callback \<Rightarrow> int64_t \<Rightarrow> world \<Rightarrow> int \<times> world" where
  "hdfsPreAttachFileMonitor handler cookie w =
     (let callback = file_bind handler cookie
      in (0, w\<lparr>fileEventCallback := Some callback\<rparr>))"

subsection \<open>The last error\<close>






subsection \<open>Log records\<close>

text \<open>
  \<^verbatim>\<open>LogData\<close> with the fields the file reads; the two \<^verbatim>\<open>const char *\<close> fields are addresses
  or null. Memory is a list of blocks, a block's address being its index. A block holds a C
  string or a \<^verbatim>\<open>LogData\<close>, and is live or freed; a freed block keeps the bytes it held, which
  is what \<^verbatim>\<open>memset\<close> before \<^verbatim>\<open>free\<close> is about. \<open>avail\<close> is the number of blocks the
  allocator can still hand out: \<^verbatim>\<open>malloc\<close> and \<^verbatim>\<open>strdup\<close> return null when it is 0.
  \<^verbatim>\<open>malloc\<close> does not initialise: a new \<^verbatim>\<open>LogData\<close> block holds \<open>junk\<close>. Reading, writing
  or freeing through an address that is not a live block of the right kind is undefined in C;
  here it is a \<open>fault\<close>.
\<close>

type_synonym addr = nat

record LogData =
  msg :: "addr option"
  level :: int
  component :: int
  file_name :: "addr option"
  file_line :: int

datatype block = CString string | LogDataBlock LogData

datatype cell = Live block | Freed block

record heap =
  cells :: "cell list"
  avail :: nat
  junk :: LogData

datatype fault = InvalidRead | InvalidWrite | InvalidFree

definition live :: "addr \<Rightarrow> heap \<Rightarrow> block option" where
  "live p h =
     (if p < length (cells h) then (case cells h ! p of Live b \<Rightarrow> Some b | Freed b \<Rightarrow> None)
      else None)"

definition malloc_LogData :: "heap \<Rightarrow> addr option \<times> heap" where
  "malloc_LogData h =
     (if avail h = 0 then (None, h)
      else (Some (length (cells h)),
            h\<lparr>cells := cells h @ [Live (LogDataBlock (junk h))], avail := avail h - 1\<rparr>))"

definition strdup :: "addr \<Rightarrow> heap \<Rightarrow> fault + (addr option \<times> heap)" where
  "strdup s h =
     (case live s h of
        Some (CString text) \<Rightarrow>
          if avail h = 0 then Inr (None, h)
          else Inr (Some (length (cells h)),
                    h\<lparr>cells := cells h @ [Live (CString text)], avail := avail h - 1\<rparr>)
      | _ \<Rightarrow> Inl InvalidRead)"

definition free :: "addr \<Rightarrow> heap \<Rightarrow> fault + heap" where
  "free p h =
     (case live p h of
        Some b \<Rightarrow> Inr (h\<lparr>cells := (cells h)[p := Freed b], avail := avail h + 1\<rparr>)
      | None \<Rightarrow> Inl InvalidFree)"

text \<open>An assignment to fields of the \<^verbatim>\<open>LogData\<close> at \<open>p\<close>.\<close>

definition assign :: "addr \<Rightarrow> (LogData \<Rightarrow> LogData) \<Rightarrow> heap \<Rightarrow> fault + heap" where
  "assign p f h =
     (case live p h of
        Some (LogDataBlock r) \<Rightarrow> Inr (h\<lparr>cells := (cells h)[p := Live (LogDataBlock (f r))]\<rparr>)
      | _ \<Rightarrow> Inl InvalidWrite)"

definition zero_LogData :: LogData where
  "zero_LogData = \<lparr>msg = None, level = 0, component = 0, file_name = None, file_line = 0\<rparr>"

definition memset_zero :: "addr \<Rightarrow> heap \<Rightarrow> fault + heap" where
  "memset_zero p h = assign p (\<lambda>r. zero_LogData) h"

text \<open>Sequencing of steps that may fault.\<close>

definition and_then :: "fault + 'a \<Rightarrow> ('a \<Rightarrow> fault + 'b) \<Rightarrow> fault + 'b" where
  "and_then m f = (case m of Inl e \<Rightarrow> Inl e | Inr x \<Rightarrow> f x)"

text \<open>
  \<^verbatim>\<open>CopyLogData\<close> only reads \<^verbatim>\<open>orig\<close>: \<open>None\<close> is the null pointer and \<open>Some r\<close> a pointer to
  a record holding \<open>r\<close>. When \<^verbatim>\<open>orig->msg\<close> is null, \<^verbatim>\<open>copy->msg\<close> is not assigned.
\<close>

definition CopyLogData :: "LogData option \<Rightarrow> heap \<Rightarrow> fault + (addr option \<times> heap)" where
  "CopyLogData orig h =
     (case orig of
        None \<Rightarrow> Inr (None, h)
      | Some r \<Rightarrow>
          (case malloc_LogData h of
             (None, h1) \<Rightarrow> Inr (None, h1)
           | (Some copy, h1) \<Rightarrow>
               and_then (assign copy (\<lambda>c. c\<lparr>level := level r\<rparr>) h1) (\<lambda>h2.
               and_then (assign copy (\<lambda>c. c\<lparr>component := component r\<rparr>) h2) (\<lambda>h3.
               and_then
                 (case msg r of
                    None \<Rightarrow> Inr h3
                  | Some m \<Rightarrow>
                      and_then (strdup m h3) (\<lambda>(m', h4). assign copy (\<lambda>c. c\<lparr>msg := m'\<rparr>) h4))
                 (\<lambda>h5.
               and_then (assign copy (\<lambda>c. c\<lparr>file_name := file_name r\<rparr>) h5) (\<lambda>h6.
               and_then (assign copy (\<lambda>c. c\<lparr>file_line := file_line r\<rparr>) h6) (\<lambda>h7.
               Inr (Some copy, h7))))))))"

definition FreeLogData :: "addr option \<Rightarrow> heap \<Rightarrow> fault + heap" where
  "FreeLogData data h =
     (case data of
        None \<Rightarrow> Inr h
      | Some d \<Rightarrow>
          (case live d h of
             Some (LogDataBlock r) \<Rightarrow>
               and_then (case msg r of None \<Rightarrow> Inr h | Some m \<Rightarrow> free m h) (\<lambda>h1.
               and_then (memset_zero d h1) (\<lambda>h2.
               free d h2))
           | _ \<Rightarrow> Inl InvalidRead))"

subsection \<open>Example values\<close>

text \<open>An engine whose calls all succeed, and an initial state.\<close>

definition engine0 :: engine where
  "engine0 =
     \<lparr>IoService_New = Returns (Some 1),
      FileSystem_New = (\<lambda>io user options. Returns (Some 2, None)),
      SetFsEventCallback = (\<lambda>fs cb. Returns ()),
      Connect = (\<lambda>fs host port. Returns \<lparr>code = kOk, ToString = []\<rparr>),
      ConnectToDefaultFs = (\<lambda>fs. Returns \<lparr>code = kOk, ToString = []\<rparr>),
      PositionRead = (\<lambda>f buffer len position. Returns (\<lparr>code = kOk, ToString = []\<rparr>, len)),
      Read = (\<lambda>f buffer len. Returns (\<lparr>code = kOk, ToString = []\<rparr>, len)),
      Seek = (\<lambda>f offset dir. Returns (\<lparr>code = kOk, ToString = []\<rparr>, offset)),
      CancelOperations = (\<lambda>f. Returns ()),
      OverlayValue = (\<lambda>l c key val. Returns (Some c)),
      GetInt = (\<lambda>c key. Returns None),
      Status_Exception_ToString = (\<lambda>cls m. cls @ '':'' @ m),
      Status_Error = (\<lambda>m. \<lparr>code = kException, ToString = m\<rparr>)\<rparr>"

definition world0 :: world where
  "world0 =
     \<lparr>errno = 0, errstr = [], fsEventCallback = None, fileEventCallback = None,
      engine_calls = [], handler_calls = []\<rparr>"

definition builder0 :: hdfsBuilder where
  "builder0 =
     \<lparr>loader = ConfigurationLoader 0, config = HdfsConfiguration 0, overrideHost = None,
      overridePort = None, user = None\<rparr>"

definition build0 :: build where
  "build0 = \<lparr>NDEBUG = True, LIBHDFSPP_EVENT_OK = 0, DEBUG_SIMULATE_ERROR = - 1\<rparr>"

text \<open>
  A heap holding one engine-owned message text, with room for two more blocks, and a log
  record that points to the text.
\<close>

definition heap0 :: heap where
  "heap0 =
     \<lparr>cells = [Live (CString ''connected'')], avail = 2,
      junk = \<lparr>msg = Some 7, level = 9, component = 9, file_name = Some 9, file_line = 9\<rparr>\<rparr>"

definition record0 :: LogData where
  "record0 = \<lparr>msg = Some 0, level = 2, component = 4, file_name = None, file_line = 120\<rparr>"

section \<open>Theorems\<close>

lemma CheckSystemAndHandle_True:
  "CheckSystemAndHandle fs file w = (True, w') \<Longrightarrow> fs \<noteq> None \<and> file \<noteq> None \<and> w' = w"
  by (simp add: CheckSystemAndHandle_def split: if_splits)

subsection \<open>Helper lemmas\<close>

lemma to_string_8020: "to_string 8020 = ''8020''"
  by (simp add: to_string.simps)

lemma engine_calls_Error: "engine_calls (snd (Error stat w)) = engine_calls w"
  by (simp add: Error_def ReportError_def split: Code.splits)

lemma engine_calls_catch: "engine_calls (snd (catch eng e w)) = engine_calls w"
  by (simp add: catch_def ReportException_def ReportCaughtNonException_def engine_calls_Error
      split: thrown.splits)

lemma attach_callback_calls:
  assumes "fsEventCallback w = None
      \<or> (\<exists>cb. fsEventCallback w = Some cb \<and> SetFsEventCallback eng fs cb = Returns ())"
  shows "\<exists>w'. attach_callback eng fs w = (Returns (), w')
      \<and> engine_calls w' = engine_calls w
          @ (case fsEventCallback w of None \<Rightarrow> [] | Some cb \<Rightarrow> [Call_SetFsEventCallback fs cb])"
  using assms by (auto simp: attach_callback_def called_def)

lemma connect_call_calls:
  "\<exists>r w'. connect_call eng fs nn port w = (r, w')
      \<and> engine_calls w' = engine_calls w
          @ [if nn = None \<and> port = None then Call_ConnectToDefaultFs fs
             else Call_Connect fs (case nn of None \<Rightarrow> [] | Some host \<Rightarrow> host)
                    (case port of None \<Rightarrow> ''8020'' | Some p \<Rightarrow> to_string (unat p))]"
  by (simp add: connect_call_def called_def value_or_def kDefaultPort_def Let_def to_string_8020
      split: option.splits)

lemma connect_failed_calls:
  "engine_calls (snd (connect_failed status io fs w)) = engine_calls w
     @ (case io of None \<Rightarrow> [] | Some i \<Rightarrow> [Call_delete_IoService i]) @ [Call_delete_FileSystem fs]"
  by (simp add: connect_failed_def called_def Let_def engine_calls_Error split: option.splits)

lemma sint_ucast_in_range:
  fixes v :: int64_t
  assumes "- (2 ^ 31) \<le> sint v" "sint v \<le> 2 ^ 31 - 1"
  shows "sint (ucast v :: int32_t) = sint v"
proof -
  have "sint (ucast v :: int32_t) = signed_take_bit 31 (uint v)"
    by (simp add: signed_ucast_eq)
  also have "\<dots> = signed_take_bit 31 (signed_take_bit 63 (uint v))"
    by simp
  also have "\<dots> = signed_take_bit 31 (sint v)"
    by (simp add: sint_uint)
  also have "\<dots> = sint v"
    using assms by (simp add: signed_take_bit_int_eq_self)
  finally show ?thesis .
qed

lemma live_less: "live p h = Some b \<Longrightarrow> p < length (cells h) \<and> cells h ! p = Live b"
  by (simp add: live_def split: if_splits cell.splits)

subsection \<open>The claims\<close>

text \<open>
  C1. \<^verbatim>\<open>Error\<close> returns 0 and leaves the state as it is for the ok code. For every other code
  it returns -1 and sets \<^verbatim>\<open>errno\<close> by the table: EINVAL for invalid-argument, EAGAIN for
  resource-unavailable, ENOSYS for unimplemented, EINTR for exception and for
  operation-canceled, EACCES for permission-denied, ENOSYS for any other code. The message it
  records is the status's own text when that is not empty, and otherwise the default of the
  table.
\<close>

theorem Error_table:
  "Error \<lparr>code = kOk, ToString = t\<rparr> w = (0, w)
   \<and> Error \<lparr>code = kInvalidArgument, ToString = t\<rparr> w =
       (- 1, w\<lparr>errno := EINVAL, errstr := (if t = [] then ''Invalid argument'' else t)\<rparr>)
   \<and> Error \<lparr>code = kResourceUnavailable, ToString = t\<rparr> w =
       (- 1, w\<lparr>errno := EAGAIN,
                 errstr := (if t = [] then ''Resource temporarily unavailable'' else t)\<rparr>)
   \<and> Error \<lparr>code = kUnimplemented, ToString = t\<rparr> w =
       (- 1, w\<lparr>errno := ENOSYS,
                 errstr := (if t = [] then ''Function not implemented'' else t)\<rparr>)
   \<and> Error \<lparr>code = kException, ToString = t\<rparr> w =
       (- 1, w\<lparr>errno := EINTR, errstr := (if t = [] then ''Exception raised'' else t)\<rparr>)
   \<and> Error \<lparr>code = kOperationCanceled, ToString = t\<rparr> w =
       (- 1, w\<lparr>errno := EINTR, errstr := (if t = [] then ''Operation canceled'' else t)\<rparr>)
   \<and> Error \<lparr>code = kPermissionDenied, ToString = t\<rparr> w =
       (- 1, w\<lparr>errno := EACCES, errstr := (if t = [] then ''Permission denied'' else t)\<rparr>)
   \<and> Error \<lparr>code = kOther n, ToString = t\<rparr> w =
       (- 1, w\<lparr>errno := ENOSYS,
                 errstr := (if t = [] then ''Error: unrecognised code'' else t)\<rparr>)"
  by (simp add: Error_def ReportError_def)



text \<open>
  The two failure paths of \<^verbatim>\<open>doHdfsConnect\<close>. When the connect call returns a status that
  is not ok, the status is translated by \<^verbatim>\<open>Error\<close>, the I/O service (unless the filesystem
  took it) and the filesystem are deleted, and null is returned. When the engine returns a
  null filesystem, the error is reported and null is returned, with no call after
  \<^verbatim>\<open>FileSystem::New\<close>.
\<close>

lemma doHdfsConnect_connect_fails:
  assumes "IoService_New eng = Returns io0"
    and "FileSystem_New eng io0 (value_or user' []) options = Returns (Some fs, io)"
    and "attach_callback eng fs
           (called (Call_FileSystem_New io0 (value_or user' []) options)
             (called Call_IoService_New w)) = (Returns (), w3)"
    and "connect_call eng fs nn port w3 = (Returns status, w4)"
    and "\<not> ok status"
  shows "doHdfsConnect eng nn port user' options w =
      (None,
       (snd (Error status w4))
         \<lparr>engine_calls := engine_calls w4
            @ (case io of None \<Rightarrow> [] | Some i \<Rightarrow> [Call_delete_IoService i])
            @ [Call_delete_FileSystem fs]\<rparr>)"
  using assms
  by (simp add: doHdfsConnect_def connect_failed_def called_def Let_def engine_calls_Error
      split: option.splits)

lemma doHdfsConnect_null_filesystem:
  assumes "IoService_New eng = Returns io0"
    and "FileSystem_New eng io0 (value_or user' []) options = Returns (None, io)"
  shows "doHdfsConnect eng nn port user' options w =
      (None,
       w\<lparr>errno := ENODEV, errstr := ''Could not create FileSystem object'',
         engine_calls := engine_calls w
           @ [Call_IoService_New, Call_FileSystem_New io0 (value_or user' []) options]\<rparr>)"
  using assms by (simp add: doHdfsConnect_def ReportError_def called_def Let_def)

text \<open>
  C3. When the engine returns a null filesystem, \<^verbatim>\<open>doHdfsConnect\<close> reports ENODEV with
  the message "Could not create FileSystem object" and returns null, but the I/O service it
  has just created is not deleted: with an engine whose \<^verbatim>\<open>FileSystem::New\<close> returns null
  and leaves the caller's \<^verbatim>\<open>io_service\<close> pointer as it was, the calls made into the engine
  are the two constructions and nothing else. (On the other path of the claim, a failing
  connect call, both objects are deleted: lemma \<open>doHdfsConnect_connect_fails\<close>.)
\<close>

theorem doHdfsConnect_null_filesystem_leaves_io_service:
  "doHdfsConnect (engine0\<lparr>FileSystem_New := (\<lambda>io user options. Returns (None, io))\<rparr>)
     (Some ''namenode'') None None (Options 0) world0 =
     (None,
      world0\<lparr>errno := ENODEV, errstr := ''Could not create FileSystem object'',
        engine_calls := [Call_IoService_New, Call_FileSystem_New (Some 1) [] (Options 0)]\<rparr>)"
  by (simp add: doHdfsConnect_def ReportError_def called_def Let_def engine0_def world0_def
      value_or_def)

text \<open>
  C4. Once \<^verbatim>\<open>doHdfsConnect\<close> has its filesystem object (the I/O service and the filesystem
  were created, and attaching a pending callback did not throw), it makes exactly one
  connect call: to the engine's default filesystem when neither host nor port was given,
  and otherwise to the given host (the empty string if absent) and the given port in
  decimal, \<open>8020\<close> if absent. The only engine calls after it are the deletions of the
  failure path.
\<close>

theorem doHdfsConnect_address:
  assumes io: "IoService_New eng = Returns io0"
    and fs: "FileSystem_New eng io0 (value_or user' []) options = Returns (Some fs, io)"
    and cb: "fsEventCallback w = None
          \<or> (\<exists>cb. fsEventCallback w = Some cb \<and> SetFsEventCallback eng fs cb = Returns ())"
  shows "\<exists>post.
      engine_calls (snd (doHdfsConnect eng nn port user' options w)) =
        engine_calls w
        @ [Call_IoService_New, Call_FileSystem_New io0 (value_or user' []) options]
        @ (case fsEventCallback w of None \<Rightarrow> [] | Some cb \<Rightarrow> [Call_SetFsEventCallback fs cb])
        @ [if nn = None \<and> port = None then Call_ConnectToDefaultFs fs
           else Call_Connect fs (case nn of None \<Rightarrow> [] | Some host \<Rightarrow> host)
                  (case port of None \<Rightarrow> ''8020'' | Some p \<Rightarrow> to_string (unat p))]
        @ post
      \<and> (\<forall>c \<in> set post. c = Call_delete_FileSystem fs \<or> (\<exists>i. c = Call_delete_IoService i))"
proof -
  define w2 where
    "w2 = called (Call_FileSystem_New io0 (value_or user' []) options) (called Call_IoService_New w)"
  define cbs where
    "cbs = (case fsEventCallback w of None \<Rightarrow> [] | Some cb \<Rightarrow> [Call_SetFsEventCallback fs cb])"
  define con where
    "con = (if nn = None \<and> port = None then Call_ConnectToDefaultFs fs
           else Call_Connect fs (case nn of None \<Rightarrow> [] | Some host \<Rightarrow> host)
                  (case port of None \<Rightarrow> ''8020'' | Some p \<Rightarrow> to_string (unat p)))"
  have w2: "engine_calls w2 = engine_calls w
      @ [Call_IoService_New, Call_FileSystem_New io0 (value_or user' []) options]"
    and cb2: "fsEventCallback w2 = fsEventCallback w"
    by (simp_all add: w2_def called_def)
  from cb cb2 obtain w3 where att: "attach_callback eng fs w2 = (Returns (), w3)"
    and w3: "engine_calls w3 = engine_calls w2 @ cbs"
    using attach_callback_calls [of w2 eng fs] by (auto simp: cbs_def)
  obtain r w4 where cc: "connect_call eng fs nn port w3 = (r, w4)"
    and w4: "engine_calls w4 = engine_calls w3 @ [con]"
    using connect_call_calls [of eng fs nn port w3] by (auto simp: con_def)
  have run: "doHdfsConnect eng nn port user' options w =
      (case r of
         Throws e \<Rightarrow> catch_nullptr eng e w4
       | Returns status \<Rightarrow>
           if \<not> ok status then connect_failed status io fs w4
           else (Some \<lparr>filesystem_m = fs\<rparr>, w4))"
    using io fs att cc by (simp add: doHdfsConnect_def Let_def w2_def)
  have "\<exists>post. engine_calls (snd (doHdfsConnect eng nn port user' options w)) =
        engine_calls w4 @ post
      \<and> (\<forall>c \<in> set post. c = Call_delete_FileSystem fs \<or> (\<exists>i. c = Call_delete_IoService i))"
  proof (cases r)
    case (Throws e)
    then show ?thesis
      by (simp add: run catch_nullptr_def engine_calls_catch)
  next
    case (Returns status)
    show ?thesis
    proof (cases "ok status")
      case True
      with Returns show ?thesis by (simp add: run)
    next
      case False
      with Returns have "engine_calls (snd (doHdfsConnect eng nn port user' options w)) =
          engine_calls w4
          @ ((case io of None \<Rightarrow> [] | Some i \<Rightarrow> [Call_delete_IoService i])
             @ [Call_delete_FileSystem fs])"
        by (simp add: run connect_failed_calls)
      moreover have "\<forall>c \<in> set ((case io of None \<Rightarrow> [] | Some i \<Rightarrow> [Call_delete_IoService i])
             @ [Call_delete_FileSystem fs]).
          c = Call_delete_FileSystem fs \<or> (\<exists>i. c = Call_delete_IoService i)"
        by (auto split: option.splits)
      ultimately show ?thesis by blast
    qed
  qed
  then show ?thesis
    by (simp add: w4 w3 w2 cbs_def con_def)
qed

text \<open>
  With the engine whose calls all succeed: a host without a port is connected to at port
  8020, a port without a host at that port with the empty host, and neither gives the
  default filesystem.
\<close>

theorem doHdfsConnect_address_witness:
  "engine_calls (snd (doHdfsConnect engine0 (Some ''namenode'') None None (Options 0) world0)) =
     [Call_IoService_New, Call_FileSystem_New (Some 1) [] (Options 0),
      Call_Connect 2 ''namenode'' ''8020'']
   \<and> engine_calls (snd (doHdfsConnect engine0 None (Some 9000) None (Options 0) world0)) =
     [Call_IoService_New, Call_FileSystem_New (Some 1) [] (Options 0),
      Call_Connect 2 [] ''9000'']
   \<and> engine_calls (snd (doHdfsConnect engine0 None None None (Options 0) world0)) =
     [Call_IoService_New, Call_FileSystem_New (Some 1) [] (Options 0),
      Call_ConnectToDefaultFs 2]"
  using doHdfsConnect_address [of engine0 "Some 1" None "Options 0" 2 None world0
      "Some ''namenode''" None]
    doHdfsConnect_address [of engine0 "Some 1" None "Options 0" 2 None world0 None "Some 9000"]
    doHdfsConnect_address [of engine0 "Some 1" None "Options 0" 2 None world0 None None]
  by (simp add: doHdfsConnect_def attach_callback_def connect_call_def called_def value_or_def
      kDefaultPort_def Let_def to_string.simps ok_def engine0_def world0_def)

text \<open>
  C5. For each of close, read, positional read, seek, tell and cancel: with a null
  filesystem handle the operation reports ENODEV and returns -1, whatever the file handle;
  with a filesystem handle and a null file handle it reports EBADF and returns -1. In both
  cases the trace of engine calls is unchanged: the engine is not called.
\<close>

theorem null_handles_rejected:
  "(let nodev = w\<lparr>errno := ENODEV,
                     errstr := ''Cannot perform FS operations with null FS handle.''\<rparr>;
        badf = w\<lparr>errno := EBADF,
                    errstr := ''Cannot perform FS operations with null File handle.''\<rparr>
    in hdfsCloseFile eng None file w = (- 1, nodev)
     \<and> hdfsRead eng None file buffer length' w = (- 1, nodev)
     \<and> hdfsPread eng None file position buffer length' w = (- 1, nodev)
     \<and> hdfsSeek eng None file desiredPos w = (- 1, nodev)
     \<and> hdfsTell eng None file w = (- 1, nodev)
     \<and> hdfsCancel eng None file w = (- 1, nodev)
     \<and> hdfsCloseFile eng (Some h) None w = (- 1, badf)
     \<and> hdfsRead eng (Some h) None buffer length' w = (- 1, badf)
     \<and> hdfsPread eng (Some h) None position buffer length' w = (- 1, badf)
     \<and> hdfsSeek eng (Some h) None desiredPos w = (- 1, badf)
     \<and> hdfsTell eng (Some h) None w = (- 1, badf)
     \<and> hdfsCancel eng (Some h) None w = (- 1, badf)
     \<and> engine_calls nodev = engine_calls w \<and> engine_calls badf = engine_calls w)"
  by (simp add: hdfsCloseFile_def hdfsRead_def hdfsPread_def hdfsSeek_def hdfsTell_def
      hdfsCancel_def CheckSystemAndHandle_def ReportError_def Let_def)

text \<open>
  C6. When the loader's \<^verbatim>\<open>OverlayValue\<close> returns a configuration,
  \<^verbatim>\<open>hdfsBuilderConfSetStr\<close> returns 0 and the builder holds that configuration, its other
  fields unchanged. When \<^verbatim>\<open>OverlayValue\<close> returns nothing, it returns 1, reports EINVAL
  with the message "Could not change Builder value", and the builder is unchanged.
\<close>

theorem hdfsBuilderConfSetStr_spec:
  "(OverlayValue eng (loader bld) (config bld) key val = Returns (Some newConfig) \<longrightarrow>
      hdfsBuilderConfSetStr eng bld key val w =
        (0, bld\<lparr>config := newConfig\<rparr>,
         called (Call_OverlayValue (loader bld) (config bld) key val) w))
   \<and> (OverlayValue eng (loader bld) (config bld) key val = Returns None \<longrightarrow>
      hdfsBuilderConfSetStr eng bld key val w =
        (1, bld,
         (called (Call_OverlayValue (loader bld) (config bld) key val) w)
           \<lparr>errno := EINVAL, errstr := ''Could not change Builder value''\<rparr>))"
  by (simp add: hdfsBuilderConfSetStr_def ReportError_def)

theorem hdfsBuilderConfSetStr_spec_witness:
  "hdfsBuilderConfSetStr
     (engine0\<lparr>OverlayValue := (\<lambda>l c key val. Returns (Some (HdfsConfiguration 1)))\<rparr>)
     builder0 ''x'' ''1'' world0 =
     (0, builder0\<lparr>config := HdfsConfiguration 1\<rparr>,
      world0\<lparr>engine_calls :=
        [Call_OverlayValue (ConfigurationLoader 0) (HdfsConfiguration 0) ''x'' ''1'']\<rparr>)
   \<and> hdfsBuilderConfSetStr (engine0\<lparr>OverlayValue := (\<lambda>l c key val. Returns None)\<rparr>)
     builder0 ''x'' ''1'' world0 =
     (1, builder0,
      world0\<lparr>errno := EINVAL, errstr := ''Could not change Builder value'',
        engine_calls :=
          [Call_OverlayValue (ConfigurationLoader 0) (HdfsConfiguration 0) ''x'' ''1'']\<rparr>)"
  using hdfsBuilderConfSetStr_spec
      [of "engine0\<lparr>OverlayValue := (\<lambda>l c key val. Returns (Some (HdfsConfiguration 1)))\<rparr>"
        builder0 "''x''" "''1''" "HdfsConfiguration 1" world0]
    hdfsBuilderConfSetStr_spec
      [of "engine0\<lparr>OverlayValue := (\<lambda>l c key val. Returns None)\<rparr>"
        builder0 "''x''" "''1''" "HdfsConfiguration 1" world0]
  by (simp add: engine0_def builder0_def world0_def called_def)

text \<open>
  C7. \<^verbatim>\<open>hdfsBuilderConfGetInt\<close>: when the key holds a value outside the range of a signed
  32-bit integer, it returns 1 and the output is unchanged; when the key holds a value in
  that range, it returns 0 and the output holds that value; when the key is absent, it
  returns 0, the output is unchanged, and EINVAL is reported with the message
  "Could not get Builder value".
\<close>

theorem hdfsBuilderConfGetInt_spec:
  "(GetInt eng (config bld) key = Returns (Some v)
      \<and> (sint v < - (2 ^ 31) \<or> 2 ^ 31 - 1 < sint v) \<longrightarrow>
      hdfsBuilderConfGetInt eng bld key val w = (1, val, called (Call_GetInt (config bld) key) w))
   \<and> (GetInt eng (config bld) key = Returns (Some v)
      \<and> - (2 ^ 31) \<le> sint v \<and> sint v \<le> 2 ^ 31 - 1 \<longrightarrow>
      (\<exists>val' w'. hdfsBuilderConfGetInt eng bld key val w = (0, val', w') \<and> sint val' = sint v))
   \<and> (GetInt eng (config bld) key = Returns None \<longrightarrow>
      hdfsBuilderConfGetInt eng bld key val w =
        (0, val,
         (called (Call_GetInt (config bld) key) w)
           \<lparr>errno := EINVAL, errstr := ''Could not get Builder value''\<rparr>))"
proof (intro conjI impI)
  assume "GetInt eng (config bld) key = Returns (Some v)
      \<and> (sint v < - (2 ^ 31) \<or> 2 ^ 31 - 1 < sint v)"
  then show "hdfsBuilderConfGetInt eng bld key val w =
      (1, val, called (Call_GetInt (config bld) key) w)"
    by (auto simp: hdfsBuilderConfGetInt_def isValidInt_def)
next
  assume a: "GetInt eng (config bld) key = Returns (Some v)
      \<and> - (2 ^ 31) \<le> sint v \<and> sint v \<le> 2 ^ 31 - 1"
  then have "isValidInt v"
    by (simp add: isValidInt_def)
  with a have "hdfsBuilderConfGetInt eng bld key val w =
      (0, ucast v, ReportError EINVAL ''Could not get Builder value''
                     (called (Call_GetInt (config bld) key) w))"
    by (simp add: hdfsBuilderConfGetInt_def)
  moreover have "sint (ucast v :: int32_t) = sint v"
    using a by (simp add: sint_ucast_in_range)
  ultimately show "\<exists>val' w'. hdfsBuilderConfGetInt eng bld key val w = (0, val', w')
      \<and> sint val' = sint v"
    by blast
next
  assume "GetInt eng (config bld) key = Returns None"
  then show "hdfsBuilderConfGetInt eng bld key val w =
        (0, val,
         (called (Call_GetInt (config bld) key) w)
           \<lparr>errno := EINVAL, errstr := ''Could not get Builder value''\<rparr>)"
    by (simp add: hdfsBuilderConfGetInt_def ReportError_def)
qed

text \<open>
  With the output holding 7: the value \<open>2 ^ 32\<close> is refused and 7 stays, the value -5 is
  stored, and an absent key leaves 7 and reports EINVAL.
\<close>

theorem hdfsBuilderConfGetInt_spec_witness:
  "(let r = hdfsBuilderConfGetInt (engine0\<lparr>GetInt := (\<lambda>c key. Returns (Some 4294967296))\<rparr>)
              builder0 ''k'' 7 world0
    in fst r = 1 \<and> fst (snd r) = 7)
   \<and> (let r = hdfsBuilderConfGetInt (engine0\<lparr>GetInt := (\<lambda>c key. Returns (Some (- 5)))\<rparr>)
              builder0 ''k'' 7 world0
    in fst r = 0 \<and> sint (fst (snd r)) = - 5)
   \<and> (let r = hdfsBuilderConfGetInt engine0 builder0 ''k'' 7 world0
    in fst r = 0 \<and> fst (snd r) = 7 \<and> errno (snd (snd r)) = EINVAL)"
  using hdfsBuilderConfGetInt_spec
      [of "engine0\<lparr>GetInt := (\<lambda>c key. Returns (Some 4294967296))\<rparr>" builder0 "''k''"
        4294967296 7 world0]
    hdfsBuilderConfGetInt_spec
      [of "engine0\<lparr>GetInt := (\<lambda>c key. Returns (Some (- 5)))\<rparr>" builder0 "''k''" "- 5" 7 world0]
    hdfsBuilderConfGetInt_spec [of engine0 builder0 "''k''" 0 7 world0]
  by (auto simp: engine0_def Let_def)

text \<open>
  C8. The closures stored by \<^verbatim>\<open>hdfsPreAttachFSMonitor\<close> and \<^verbatim>\<open>hdfsPreAttachFileMonitor\<close>
  hold the handler and the cookie. Invoked with an event, a cluster, (a file,) and a value,
  such a closure calls the handler once, with those arguments and the cookie. When \<^verbatim>\<open>NDEBUG\<close>
  is defined its response is ok whatever the handler returns; otherwise its response is the
  test error built from "Simulated error" exactly when the handler returns
  \<^verbatim>\<open>DEBUG_SIMULATE_ERROR\<close> (and that is not \<^verbatim>\<open>LIBHDFSPP_EVENT_OK\<close>), and ok for every
  other return value.
\<close>

theorem event_callback_spec:
  "fsEventCallback (snd (hdfsPreAttachFSMonitor fs_handler cookie w0)) =
     Some (fs_bind fs_handler cookie)
   \<and> fileEventCallback (snd (hdfsPreAttachFileMonitor file_handler cookie w0)) =
     Some (file_bind file_handler cookie)
   \<and> snd (invoke_fs b eng (fs_bind fs_handler cookie) event cluster val w) =
       w\<lparr>handler_calls := handler_calls w @ [FsEvent event cluster val cookie]\<rparr>
   \<and> snd (invoke_file b eng (file_bind file_handler cookie) event cluster file val w) =
       w\<lparr>handler_calls := handler_calls w @ [FileEvent event cluster file val cookie]\<rparr>
   \<and> (NDEBUG b \<longrightarrow>
        fst (invoke_fs b eng (fs_bind fs_handler cookie) event cluster val w) = response_ok
        \<and> fst (invoke_file b eng (file_bind file_handler cookie) event cluster file val w) =
            response_ok)
   \<and> (\<not> NDEBUG b \<longrightarrow>
        fst (invoke_fs b eng (fs_bind fs_handler cookie) event cluster val w) =
          (if fs_handler event cluster val cookie = DEBUG_SIMULATE_ERROR b
              \<and> fs_handler event cluster val cookie \<noteq> LIBHDFSPP_EVENT_OK b
           then test_err (Status_Error eng ''Simulated error'') else response_ok)
        \<and> fst (invoke_file b eng (file_bind file_handler cookie) event cluster file val w) =
          (if file_handler event cluster file val cookie = DEBUG_SIMULATE_ERROR b
              \<and> file_handler event cluster file val cookie \<noteq> LIBHDFSPP_EVENT_OK b
           then test_err (Status_Error eng ''Simulated error'') else response_ok))"
  by (simp add: hdfsPreAttachFSMonitor_def hdfsPreAttachFileMonitor_def fs_callback_glue_def
      file_callback_glue_def Let_def)

text \<open>
  A handler that always returns -1, taken as \<^verbatim>\<open>DEBUG_SIMULATE_ERROR\<close>: the build with
  \<^verbatim>\<open>NDEBUG\<close> continues, the build without it answers with the test error.
\<close>

theorem event_callback_spec_witness:
  "invoke_fs build0 engine0 (fs_bind (\<lambda>event cluster val cookie. - 1) 5)
     ''connect'' ''cluster'' 3 world0 =
     (response_ok, world0\<lparr>handler_calls := [FsEvent ''connect'' ''cluster'' 3 5]\<rparr>)
   \<and> invoke_fs (build0\<lparr>NDEBUG := False\<rparr>) engine0 (fs_bind (\<lambda>event cluster val cookie. - 1) 5)
     ''connect'' ''cluster'' 3 world0 =
     (test_err \<lparr>code = kException, ToString = ''Simulated error''\<rparr>,
      world0\<lparr>handler_calls := [FsEvent ''connect'' ''cluster'' 3 5]\<rparr>)"
  using event_callback_spec
      [of "\<lambda>event cluster val cookie. - 1" 5 world0 "\<lambda>event cluster file val cookie. - 1"
        build0 engine0 "''connect''" "''cluster''" 3 world0 "''f''"]
    event_callback_spec
      [of "\<lambda>event cluster val cookie. - 1" 5 world0 "\<lambda>event cluster file val cookie. - 1"
        "build0\<lparr>NDEBUG := False\<rparr>" engine0 "''connect''" "''cluster''" 3 world0 "''f''"]
  by (simp add: build0_def engine0_def world0_def fs_callback_glue_def Let_def)

text \<open>
  \<^verbatim>\<open>CopyLogData\<close> and \<^verbatim>\<open>FreeLogData\<close>, path by path. \<^verbatim>\<open>CopyLogData\<close> of null is null,
  and so is that of a record when \<^verbatim>\<open>malloc\<close> fails. Otherwise the copy is a new block, at
  an address past every block of the heap, with the level, component, file name and file
  line of the original. When the original has a message text and \<^verbatim>\<open>strdup\<close> succeeds, the
  copy's message is a second new block holding the same text; when \<^verbatim>\<open>strdup\<close> fails it is
  null; when the original has no message, it is what the new block held before.
  \<^verbatim>\<open>FreeLogData\<close> of null changes nothing. Of a live record whose message field is null it
  leaves the record's block freed and holding zeros; of one whose message field points to
  another live block it frees that block as well.
\<close>

lemma LogData_copy_free:
  "CopyLogData None h = Inr (None, h)
   \<and> (avail h = 0 \<longrightarrow> CopyLogData (Some r) h = Inr (None, h))
   \<and> (0 < avail h \<and> msg r = None \<longrightarrow>
        CopyLogData (Some r) h =
          Inr (Some (length (cells h)),
               h\<lparr>cells := cells h @
                    [Live (LogDataBlock ((junk h)\<lparr>level := level r, component := component r,
                       file_name := file_name r, file_line := file_line r\<rparr>))],
                 avail := avail h - 1\<rparr>))
   \<and> (1 < avail h \<and> msg r = Some m \<and> live m h = Some (CString text) \<longrightarrow>
        m < length (cells h)
        \<and> CopyLogData (Some r) h =
          Inr (Some (length (cells h)),
               h\<lparr>cells := cells h @
                    [Live (LogDataBlock (r\<lparr>msg := Some (length (cells h) + 1)\<rparr>)),
                     Live (CString text)],
                 avail := avail h - 2\<rparr>))
   \<and> (avail h = 1 \<and> msg r = Some m \<and> live m h = Some (CString text) \<longrightarrow>
        CopyLogData (Some r) h =
          Inr (Some (length (cells h)),
               h\<lparr>cells := cells h @ [Live (LogDataBlock (r\<lparr>msg := None\<rparr>))], avail := 0\<rparr>))
   \<and> FreeLogData None h = Inr h
   \<and> (live d h = Some (LogDataBlock r) \<and> msg r = None \<longrightarrow>
        FreeLogData (Some d) h =
          Inr (h\<lparr>cells := (cells h)[d := Freed (LogDataBlock zero_LogData)],
                 avail := avail h + 1\<rparr>))
   \<and> (live d h = Some (LogDataBlock r) \<and> msg r = Some m \<and> live m h = Some b \<and> m \<noteq> d \<longrightarrow>
        FreeLogData (Some d) h =
          Inr (h\<lparr>cells := (cells h)[m := Freed b, d := Freed (LogDataBlock zero_LogData)],
                 avail := avail h + 2\<rparr>))"
proof (intro conjI impI)
  show "CopyLogData None h = Inr (None, h)"
    by (simp add: CopyLogData_def)
  show "FreeLogData None h = Inr h"
    by (simp add: FreeLogData_def)
  show "CopyLogData (Some r) h = Inr (None, h)" if "avail h = 0"
    using that by (simp add: CopyLogData_def malloc_LogData_def)
  show "CopyLogData (Some r) h =
          Inr (Some (length (cells h)),
               h\<lparr>cells := cells h @
                    [Live (LogDataBlock ((junk h)\<lparr>level := level r, component := component r,
                       file_name := file_name r, file_line := file_line r\<rparr>))],
                 avail := avail h - 1\<rparr>)" if "0 < avail h \<and> msg r = None"
    using that
    by (simp add: CopyLogData_def malloc_LogData_def and_then_def assign_def live_def)
next
  assume a: "1 < avail h \<and> msg r = Some m \<and> live m h = Some (CString text)"
  then have m: "m < length (cells h)" and c: "cells h ! m = Live (CString text)"
    by (simp_all add: live_less)
  show "m < length (cells h)"
    by (fact m)
  from a m c show "CopyLogData (Some r) h =
          Inr (Some (length (cells h)),
               h\<lparr>cells := cells h @
                    [Live (LogDataBlock (r\<lparr>msg := Some (length (cells h) + 1)\<rparr>)),
                     Live (CString text)],
                 avail := avail h - 2\<rparr>)"
    by (simp add: CopyLogData_def malloc_LogData_def and_then_def assign_def strdup_def
        live_def nth_append list_update_append)
next
  assume a: "avail h = 1 \<and> msg r = Some m \<and> live m h = Some (CString text)"
  then have m: "m < length (cells h)" and c: "cells h ! m = Live (CString text)"
    by (simp_all add: live_less)
  with a show "CopyLogData (Some r) h =
          Inr (Some (length (cells h)),
               h\<lparr>cells := cells h @ [Live (LogDataBlock (r\<lparr>msg := None\<rparr>))], avail := 0\<rparr>)"
    by (simp add: CopyLogData_def malloc_LogData_def and_then_def assign_def strdup_def
        live_def nth_append list_update_append)
next
  assume a: "live d h = Some (LogDataBlock r) \<and> msg r = None"
  then have "d < length (cells h)"
    by (simp add: live_less)
  with a show "FreeLogData (Some d) h =
          Inr (h\<lparr>cells := (cells h)[d := Freed (LogDataBlock zero_LogData)],
                 avail := avail h + 1\<rparr>)"
    by (simp add: FreeLogData_def and_then_def memset_zero_def assign_def free_def live_def)
next
  assume a: "live d h = Some (LogDataBlock r) \<and> msg r = Some m \<and> live m h = Some b \<and> m \<noteq> d"
  then have d: "d < length (cells h)" and cd: "cells h ! d = Live (LogDataBlock r)"
    and m: "m < length (cells h)" and cm: "cells h ! m = Live b"
    by (simp_all add: live_less)
  from a d m cd cm show "FreeLogData (Some d) h =
          Inr (h\<lparr>cells := (cells h)[m := Freed b, d := Freed (LogDataBlock zero_LogData)],
                 avail := avail h + 2\<rparr>)"
    by (simp add: FreeLogData_def and_then_def memset_zero_def assign_def free_def live_def)
qed

text \<open>
  Copying the record that points to the text at address 0, then freeing the copy: the copy
  is block 1 with its own text in block 2, and after the free both are freed, block 1
  holding zeros, while the original text is still live. With room for one block only, the
  copy has no message; with room for none, there is no copy.
\<close>

lemma LogData_copy_free_example:
  "CopyLogData (Some record0) heap0 =
     Inr (Some 1,
          heap0\<lparr>cells := [Live (CString ''connected''),
                           Live (LogDataBlock (record0\<lparr>msg := Some 2\<rparr>)),
                           Live (CString ''connected'')],
                avail := 0\<rparr>)
   \<and> FreeLogData (Some 1)
       (heap0\<lparr>cells := [Live (CString ''connected''),
                        Live (LogDataBlock (record0\<lparr>msg := Some 2\<rparr>)),
                        Live (CString ''connected'')],
              avail := 0\<rparr>) =
     Inr (heap0\<lparr>cells := [Live (CString ''connected''),
                           Freed (LogDataBlock zero_LogData),
                           Freed (CString ''connected'')],
                avail := 2\<rparr>)
   \<and> CopyLogData (Some record0) (heap0\<lparr>avail := 1\<rparr>) =
     Inr (Some 1,
          heap0\<lparr>cells := [Live (CString ''connected''),
                           Live (LogDataBlock (record0\<lparr>msg := None\<rparr>))],
                avail := 0\<rparr>)"
  using LogData_copy_free [of heap0 record0 0 "''connected''" 1 "CString ''connected''"]
    LogData_copy_free
      [of "heap0\<lparr>cells := [Live (CString ''connected''),
                           Live (LogDataBlock (record0\<lparr>msg := Some 2\<rparr>)),
                           Live (CString ''connected'')],
                 avail := 0\<rparr>"
        "record0\<lparr>msg := Some 2\<rparr>" 2 "''connected''" 1 "CString ''connected''"]
    LogData_copy_free
      [of "heap0\<lparr>avail := 1\<rparr>" record0 0 "''connected''" 1 "CString ''connected''"]
  by (simp add: heap0_def record0_def live_def)

lemma CopyLogData_malloc_fails:
  "CopyLogData (Some record0) (heap0\<lparr>avail := 0\<rparr>) = Inr (None, heap0\<lparr>avail := 0\<rparr>)"
  by (simp add: CopyLogData_def malloc_LogData_def heap0_def)

text \<open>
  C9. \<^verbatim>\<open>CopyLogData\<close> assigns \<^verbatim>\<open>copy->msg\<close> only when \<^verbatim>\<open>orig->msg\<close> is not null, so the
  copy of a record without a message keeps in its message field what the new block held
  before. \<^verbatim>\<open>FreeLogData\<close> of that copy finds the field not null and frees it: here the
  block held the address 7, which is no block of the heap, and the free is a fault; the
  record is neither zeroed nor freed.
\<close>

theorem CopyLogData_without_message_FreeLogData_faults:
  "CopyLogData (Some (record0\<lparr>msg := None\<rparr>)) heap0 =
     Inr (Some 1,
          heap0\<lparr>cells := [Live (CString ''connected''),
                           Live (LogDataBlock (record0\<lparr>msg := Some 7\<rparr>))],
                avail := 1\<rparr>)
   \<and> FreeLogData (Some 1)
       (heap0\<lparr>cells := [Live (CString ''connected''),
                        Live (LogDataBlock (record0\<lparr>msg := Some 7\<rparr>))],
              avail := 1\<rparr>) = Inl InvalidFree"
  by (simp add: CopyLogData_def FreeLogData_def malloc_LogData_def assign_def and_then_def
      free_def live_def heap0_def record0_def)

text \<open>
  C10. \<^verbatim>\<open>hdfsFileIsOpenForRead\<close> returns 1 for every non-null file handle and 0 for the null
  handle, whatever the file's state in the engine; it makes no call into the engine and
  reports no error (the state, with \<^verbatim>\<open>errno\<close>, \<^verbatim>\<open>errstr\<close> and the trace of engine calls, is
  returned as it was).
\<close>

theorem hdfsFileIsOpenForRead_spec:
  "hdfsFileIsOpenForRead (Some f) w = (1, w) \<and> hdfsFileIsOpenForRead None w = (0, w)"
  by (simp add: hdfsFileIsOpenForRead_def)

end
